theory Spec2Isabelle
  imports Main "HOL-Library.Word"
begin

section \<open>Python values and strings\<close>

text \<open>
  A Python \<open>str\<close> is a sequence of Unicode code points, so it is modelled as a list of
  naturals. \<open>ascii\<close> turns an ASCII literal of the source into such a list; the few
  non-ASCII characters of the source (the en dash U+2013 of three option texts, the em dash
  U+2014 of the review placeholders) are written as their code points.
\<close>

type_synonym pystr = "nat list"

definition ascii :: "string \<Rightarrow> pystr" where
  "ascii cs = map of_char cs"

text \<open>The values the script stores in the response dictionary.\<close>

datatype pyval = PyNone | PyBool bool | PyInt int | PyStr pystr

type_synonym dict = "string \<rightharpoonup> pyval"

text \<open>\<open>str.isspace\<close> for one character: the code points CPython classifies as whitespace.\<close>

definition py_isspace :: "nat \<Rightarrow> bool" where
  "py_isspace c =
     ((9 \<le> c \<and> c \<le> 13) \<or> (28 \<le> c \<and> c \<le> 32) \<or> c = 133 \<or> c = 160 \<or> c = 5760
      \<or> (8192 \<le> c \<and> c \<le> 8202) \<or> c = 8232 \<or> c = 8233 \<or> c = 8239 \<or> c = 8287
      \<or> c = 12288)"

text \<open>\<open>s.strip()\<close>: leading whitespace is dropped, then trailing whitespace.\<close>

definition strip :: "pystr \<Rightarrow> pystr" where
  "strip s = rev (dropWhile py_isspace (rev (dropWhile py_isspace s)))"

text \<open>Truthiness, as used by \<open>if x\<close> and by \<open>x or y\<close>.\<close>

fun truthy :: "pyval \<Rightarrow> bool" where
  "truthy PyNone = False"
| "truthy (PyBool b) = b"
| "truthy (PyInt i) = (i \<noteq> 0)"
| "truthy (PyStr s) = (s \<noteq> [])"

definition py_or :: "pyval \<Rightarrow> pyval \<Rightarrow> pyval" where
  "py_or x y = (if truthy x then x else y)"

text \<open>\<open>d.get(k)\<close> and \<open>d.get(k, default)\<close>.\<close>

definition get_default :: "dict \<Rightarrow> string \<Rightarrow> pyval \<Rightarrow> pyval" where
  "get_default d k dflt = (case d k of None \<Rightarrow> dflt | Some v \<Rightarrow> v)"

definition get :: "dict \<Rightarrow> string \<Rightarrow> pyval" where
  "get d k = get_default d k PyNone"

text \<open>Decimal digits of a natural number, most significant first.\<close>

function digits :: "nat \<Rightarrow> pystr" where
  "digits n = (if n < 10 then [48 + n] else digits (n div 10) @ [48 + n mod 10])"
  by pat_completeness auto
termination
  by (relation "measure id") auto

declare digits.simps [simp del]

text \<open>What an f-string substitutes for \<open>{v}\<close>: \<open>str(v)\<close>.\<close>

fun format :: "pyval \<Rightarrow> pystr" where
  "format PyNone = ascii ''None''"
| "format (PyBool b) = (if b then ascii ''True'' else ascii ''False'')"
| "format (PyInt i) = (if i < 0 then 45 # digits (nat (- i)) else digits (nat i))"
| "format (PyStr s) = s"

text \<open>\<open>sep.join(lines)\<close>.\<close>

fun join :: "pystr \<Rightarrow> pystr list \<Rightarrow> pystr" where
  "join sep [] = []"
| "join sep [l] = l"
| "join sep (l # ls) = l @ sep @ join sep ls"

text \<open>\<open>needle in s\<close> for strings: \<open>needle\<close> occurs as a contiguous part of \<open>s\<close>.\<close>

fun starts_with :: "pystr \<Rightarrow> pystr \<Rightarrow> bool" where
  "starts_with [] s = True"
| "starts_with (n # ns) [] = False"
| "starts_with (n # ns) (c # cs) = (n = c \<and> starts_with ns cs)"

fun contains :: "pystr \<Rightarrow> pystr \<Rightarrow> bool" where
  "contains needle [] = (needle = [])"
| "contains needle (c # cs) = (starts_with needle (c # cs) \<or> contains needle cs)"

abbreviation nl :: pystr where
  "nl \<equiv> [10]"

section \<open>The PDF renderer\<close>

datatype error = UnicodeEncodeError nat | AttributeError | LibraryError string

type_synonym byte = "8 word"

text \<open>
  \<open>s.encode('latin-1')\<close>: one byte per character, and a \<open>UnicodeEncodeError\<close> carrying
  the position of the first character above U+00FF.
\<close>

fun encode_from :: "nat \<Rightarrow> pystr \<Rightarrow> error + byte list" where
  "encode_from i [] = Inr []"
| "encode_from i (c # cs) =
     (if c < 256
      then (case encode_from (Suc i) cs of
              Inl e \<Rightarrow> Inl e
            | Inr bs \<Rightarrow> Inr (of_nat c # bs))
      else Inl (UnicodeEncodeError i))"

definition encode_latin1 :: "pystr \<Rightarrow> error + byte list" where
  "encode_latin1 s = encode_from 0 s"

text \<open>
  The calls \<open>create_summary_pdf\<close> makes on the \<open>FPDF\<close> object, in order.
\<close>

datatype fpdf_call =
    AddPage
  | SetFont string string nat
  | Cell nat nat pystr bool string
  | Ln nat
  | MultiCell nat nat pystr

definition body_text :: "pystr \<Rightarrow> pystr \<Rightarrow> pystr" where
  "body_text summary_text today =
     nl @ ascii ''Date: '' @ today @ nl
     @ nl
     @ ascii ''This is a preliminary summary from the initial interest form.'' @ nl
     @ nl
     @ ascii ''Summary of responses:'' @ nl
     @ summary_text @ nl
     @ nl
     @ ascii ''Note: This is not a formal engagement or signed document.'' @ nl
     @ ascii ''No sensitive or identifying information was collected.'' @ nl
     @ nl
     @ ascii ''Next steps will be discussed after review.'' @ nl"

definition pdf_calls :: "pystr \<Rightarrow> pystr \<Rightarrow> fpdf_call list" where
  "pdf_calls summary_text today =
     [AddPage,
      SetFont ''Arial'' ''B'' 16,
      Cell 0 10 (ascii ''Prospective Client Interest Summary'') True ''C'',
      Ln 10,
      SetFont ''Arial'' '''' 12,
      MultiCell 0 8 (body_text summary_text today)]"

text \<open>
  The FPDF library is not part of the repository, so what it does with these calls is a
  parameter: \<open>pdf_output now calls\<close> is the result of \<open>pdf.output(dest='S')\<close> after the
  calls, when the system clock reads \<open>now\<close>. The library may read the clock (a PDF
  carries its creation time), and it may raise instead of returning a string: an
  exception of any of the calls or of \<open>output\<close> is \<open>Inl\<close> here, and it leaves
  \<open>create_summary_pdf\<close> before line 29 is reached.
\<close>

type_synonym fpdf_library = "nat \<Rightarrow> fpdf_call list \<Rightarrow> error + pystr"

definition create_summary_pdf ::
    "fpdf_library \<Rightarrow> nat \<Rightarrow> pystr \<Rightarrow> pystr \<Rightarrow> error + byte list" where
  "create_summary_pdf pdf_output now summary_text today =
     (case pdf_output now (pdf_calls summary_text today) of
        Inl e \<Rightarrow> Inl e
      | Inr buffer \<Rightarrow> encode_latin1 buffer)"

section \<open>The wizard controller\<close>

text \<open>
  \<open>st.session_state\<close> holds at most the two keys the script ever sets, \<open>step\<close> and
  \<open>responses\<close>; a key that is not set is \<open>None\<close> here.
\<close>

record session_state =
  step :: "int option"
  responses :: "dict option"

definition empty_session :: session_state where
  "empty_session = \<lparr>step = None, responses = None\<rparr>"

text \<open>
  What the Streamlit calls return during one run of the script: the values of the input
  widgets, one flag for each button, and the date \<open>date.today()\<close> formats to; and what
  the system clock reads during the run. The script reads only the fields of the step it
  is at.
\<close>

record widgets =
  situation :: pystr
  timeline :: pystr
  complexity :: int
  submitted :: bool
  main_concern :: pystr
  contact_pref :: pystr
  email :: pystr
  phone :: pystr
  interest_confirm :: bool
  back_clicked :: bool
  submit_final :: bool
  today_str :: pystr
  generate_clicked :: bool
  start_over_clicked :: bool
  clock_now :: nat

definition situation_options :: "pystr list" where
  "situation_options =
     [ascii ''Looking for help with personal or family taxes'',
      ascii ''Need guidance on business or self-employment taxes'',
      ascii ''Exploring tax planning or year-end strategies'',
      ascii ''Dealing with a recent life event that may affect taxes (for myself or a family member)'',
      ascii ''Other / just exploring CPA services'',
      ascii ''Not sure yet '' @ [8211] @ ascii '' want to discuss options'']"

definition timeline_options :: "pystr list" where
  "timeline_options =
     [ascii ''Immediately / within the next 30 days'',
      ascii ''Within the next 3'' @ [8211] @ ascii ''6 months'',
      ascii ''No firm timeline yet '' @ [8211] @ ascii '' gathering information'',
      ascii ''Just researching for future reference'']"

definition contact_options :: "pystr list" where
  "contact_options =
     [ascii ''Email'', ascii ''Phone call'', ascii ''Video call (Zoom/Teams)'',
      ascii ''No preference'']"

text \<open>
  What a run puts on the page. Widgets are named by the variable the source binds them to;
  a select box or radio group shows its first option until the user changes it, a slider
  its \<open>value\<close>, a text field the empty string and a checkbox \<open>False\<close>. The static page
  header (page configuration, title and introduction) is one element.
\<close>

datatype element =
    PageHeader
  | Subheader pystr
  | Selectbox string "pystr list"
  | Radio string "pystr list"
  | Slider string int int int
  | TextArea string
  | TextInput string
  | Checkbox string
  | Button string
  | Markdown pystr
  | Warning pystr
  | Success pystr
  | Info pystr
  | DownloadButton "byte list" pystr string

text \<open>How a run ends: normally, by \<open>st.rerun()\<close>, or by an exception.\<close>

datatype outcome = Done | Rerun | Raised error

text \<open>Lines 46 to 49: the two keys are created when they are missing.\<close>

definition init_session :: "session_state \<Rightarrow> session_state" where
  "init_session s =
     (let s1 = (if step s = None then s\<lparr>step := Some 1\<rparr> else s)
      in if responses s1 = None then s1\<lparr>responses := Some Map.empty\<rparr> else s1)"

definition step1_view :: "element list" where
  "step1_view =
     [PageHeader,
      Subheader (ascii ''Step 1: General Situation''),
      Selectbox ''situation'' situation_options,
      Radio ''timeline'' timeline_options,
      Slider ''complexity'' 1 5 3,
      Button ''submitted'']"

definition step1 :: "widgets \<Rightarrow> session_state \<Rightarrow> dict \<Rightarrow> session_state \<times> element list \<times> outcome" where
  "step1 w s resp =
     (if submitted w
      then (s\<lparr>responses := Some (resp(''situation'' \<mapsto> PyStr (situation w),
                                       ''timeline'' \<mapsto> PyStr (timeline w),
                                       ''complexity'' \<mapsto> PyInt (complexity w))),
              step := Some 2\<rparr>,
            step1_view, Rerun)
      else (s, step1_view, Done))"

definition step2_form :: "element list" where
  "step2_form =
     [PageHeader,
      Subheader (ascii ''Step 2: A Few More Details''),
      TextArea ''main_concern'',
      Selectbox ''contact_pref'' contact_options,
      TextInput ''email'',
      TextInput ''phone'',
      Checkbox ''interest_confirm'',
      Button ''back'']"

definition step2_view :: "element list" where
  "step2_view = step2_form @ [Button ''submit_final'']"

definition blank_to_none :: "pystr \<Rightarrow> pyval" where
  "blank_to_none x = (if strip x \<noteq> [] then PyStr (strip x) else PyNone)"

definition step2 :: "widgets \<Rightarrow> session_state \<Rightarrow> dict \<Rightarrow> session_state \<times> element list \<times> outcome" where
  "step2 w s resp =
     (if back_clicked w then (s\<lparr>step := Some 1\<rparr>, step2_form, Rerun)
      else if submit_final w
      then (if \<not> interest_confirm w
            then (s, step2_view @ [Warning (ascii ''Please confirm interest to continue.'')], Done)
            else (s\<lparr>responses := Some (resp(''main_concern'' \<mapsto> PyStr (main_concern w),
                                             ''contact_pref'' \<mapsto> PyStr (contact_pref w),
                                             ''email'' \<mapsto> blank_to_none (email w),
                                             ''phone'' \<mapsto> blank_to_none (phone w),
                                             ''interest_confirm'' \<mapsto> PyBool (interest_confirm w))),
                    step := Some 3\<rparr>,
                  step2_view, Rerun))
      else (s, step2_view, Done))"

abbreviation dash :: pyval where
  "dash \<equiv> PyStr [8212]"

abbreviation not_provided :: pyval where
  "not_provided \<equiv> PyStr (ascii ''Not provided'')"

definition review_text :: "dict \<Rightarrow> pystr" where
  "review_text resp =
     nl @ ascii ''**Main reason for reaching out:** '' @ format (get_default resp ''situation'' dash)
        @ ascii ''  '' @ nl
     @ ascii ''**Timeline:** '' @ format (get_default resp ''timeline'' dash) @ ascii ''  '' @ nl
     @ ascii ''**Perceived complexity:** Level '' @ format (get_default resp ''complexity'' dash)
        @ ascii '' / 5  '' @ nl
     @ nl
     @ ascii ''**Biggest question/concern:**  '' @ nl
     @ format (get_default resp ''main_concern'' not_provided) @ nl
     @ nl
     @ ascii ''**Preferred contact method:** '' @ format (get_default resp ''contact_pref'' dash) @ nl
     @ nl
     @ ascii ''**Contact info provided (optional):**  '' @ nl
     @ ascii ''- Email: '' @ format (py_or (get resp ''email'') not_provided) @ ascii ''  '' @ nl
     @ ascii ''- Phone: '' @ format (py_or (get resp ''phone'') not_provided) @ nl"

definition summary_lines :: "dict \<Rightarrow> pystr list" where
  "summary_lines resp =
     [ascii ''Reason for reaching out: '' @ format (get resp ''situation''),
      ascii ''Timeline: '' @ format (get resp ''timeline''),
      ascii ''Complexity level: '' @ format (get resp ''complexity'') @ ascii ''/5'',
      ascii ''Main concern: ''
        @ format (py_or (get resp ''main_concern'') (PyStr (ascii ''None provided''))),
      ascii ''Preferred contact: '' @ format (get resp ''contact_pref''),
      ascii ''Email: '' @ format (py_or (get resp ''email'') not_provided),
      ascii ''Phone: '' @ format (py_or (get resp ''phone'') not_provided)]"

definition summary_text :: "dict \<Rightarrow> pystr" where
  "summary_text resp = join nl (summary_lines resp)"

definition step3_view :: "dict \<Rightarrow> element list" where
  "step3_view resp =
     [PageHeader,
      Subheader (ascii ''Step 3: Review Your Responses''),
      Markdown (review_text resp),
      Markdown (ascii ''---''),
      Button ''generate'']"

definition generated_view :: "byte list \<Rightarrow> pystr \<Rightarrow> element list" where
  "generated_view pdf_bytes today =
     [Success (ascii ''Summary PDF created!''),
      DownloadButton pdf_bytes (ascii ''CPA_Interest_Summary_'' @ today @ ascii ''.pdf'')
        ''application/pdf'',
      Info (ascii ''Thank you! This summary will help me prepare for a productive conversation.''),
      Button ''start_over'']"

definition step3 ::
    "fpdf_library \<Rightarrow> widgets \<Rightarrow> session_state \<Rightarrow> dict
       \<Rightarrow> session_state \<times> element list \<times> outcome" where
  "step3 pdf_output w s resp =
     (if generate_clicked w
      then (case create_summary_pdf pdf_output (clock_now w) (summary_text resp) (today_str w) of
              Inl e \<Rightarrow> (s, step3_view resp, Raised e)
            | Inr pdf_bytes \<Rightarrow>
                (if start_over_clicked w
                 then (\<lparr>step = None, responses = None\<rparr>,
                       step3_view resp @ generated_view pdf_bytes (today_str w), Rerun)
                 else (s, step3_view resp @ generated_view pdf_bytes (today_str w), Done)))
      else (s, step3_view resp, Done))"

text \<open>
  One run of the whole script on the session it finds. \<open>responses\<close> is always set after
  lines 46 to 49, so the \<open>AttributeError\<close> branch is never taken (lemma
  \<open>responses_init_session\<close>).
\<close>

definition run_script ::
    "fpdf_library \<Rightarrow> widgets \<Rightarrow> session_state
       \<Rightarrow> session_state \<times> element list \<times> outcome" where
  "run_script pdf_output w s0 =
     (let s = init_session s0
      in case responses s of
           None \<Rightarrow> (s, [PageHeader], Raised AttributeError)
         | Some resp \<Rightarrow>
             if step s = Some 1 then step1 w s resp
             else if step s = Some 2 then step2 w s resp
             else if step s = Some 3 then step3 pdf_output w s resp
             else (s, [PageHeader], Done))"

definition next_session ::
    "fpdf_library \<Rightarrow> widgets \<Rightarrow> session_state \<Rightarrow> session_state" where
  "next_session pdf_output w s = fst (run_script pdf_output w s)"

definition page :: "fpdf_library \<Rightarrow> widgets \<Rightarrow> session_state \<Rightarrow> element list" where
  "page pdf_output w s = fst (snd (run_script pdf_output w s))"

definition ending :: "fpdf_library \<Rightarrow> widgets \<Rightarrow> session_state \<Rightarrow> outcome" where
  "ending pdf_output w s = snd (snd (run_script pdf_output w s))"

section \<open>Sessions, runs and histories\<close>

text \<open>The entry of the response record under a key, if the record and the key exist.\<close>

definition field :: "session_state \<Rightarrow> string \<Rightarrow> pyval option" where
  "field s k = (case responses s of None \<Rightarrow> None | Some resp \<Rightarrow> resp k)"

definition step1_fields :: "string list" where
  "step1_fields = [''situation'', ''timeline'', ''complexity'']"

definition field_names :: "string list" where
  "field_names = [''situation'', ''timeline'', ''complexity'', ''main_concern'',
                  ''contact_pref'', ''email'', ''phone'', ''interest_confirm'']"

definition has_fields :: "string list \<Rightarrow> session_state \<Rightarrow> bool" where
  "has_fields ks s = list_all (\<lambda>k. field s k \<noteq> None) ks"

text \<open>
  A session lives through a sequence of runs of the script, each with the widget values of
  that run. The reachable sessions are those a sequence of runs produces from the empty
  session a new browser session starts with. Nothing is assumed about the widget values of
  a run, so every sequence of user actions is covered.
\<close>

fun exec :: "fpdf_library \<Rightarrow> widgets list \<Rightarrow> session_state \<Rightarrow> session_state" where
  "exec pdf_output [] s = s"
| "exec pdf_output (w # ws) s = exec pdf_output ws (next_session pdf_output w s)"

inductive reachable :: "fpdf_library \<Rightarrow> session_state \<Rightarrow> bool"
  for pdf_output :: fpdf_library where
  start: "reachable pdf_output empty_session"
| run: "reachable pdf_output s \<Longrightarrow> reachable pdf_output (next_session pdf_output w s)"

text \<open>
  What happened during a sequence of runs: \<open>confirms_step2\<close> holds when some run found the
  session at step 2 and took the branch of line 135 (final submit pressed, back not
  pressed, confirmation checked); \<open>submits_both\<close> holds when some run found the session
  at step 1 with the continue button pressed (line 84) and a later run confirmed step 2.
\<close>

fun confirms_step2 :: "fpdf_library \<Rightarrow> widgets list \<Rightarrow> session_state \<Rightarrow> bool" where
  "confirms_step2 pdf_output [] s = False"
| "confirms_step2 pdf_output (w # ws) s =
     ((step (init_session s) = Some 2 \<and> \<not> back_clicked w \<and> submit_final w \<and> interest_confirm w)
      \<or> confirms_step2 pdf_output ws (next_session pdf_output w s))"

fun submits_both :: "fpdf_library \<Rightarrow> widgets list \<Rightarrow> session_state \<Rightarrow> bool" where
  "submits_both pdf_output [] s = False"
| "submits_both pdf_output (w # ws) s =
     ((step (init_session s) = Some 1 \<and> submitted w
         \<and> confirms_step2 pdf_output ws (next_session pdf_output w s))
      \<or> submits_both pdf_output ws (next_session pdf_output w s))"

text \<open>
  \<open>overwrites_step1\<close> holds when some run of the sequence took one of the two branches
  that write the step-1 entries: the submit of step 1 (line 84), or the start-over handler
  (line 194, inside the branch of the generate button).
\<close>

fun overwrites_step1 :: "fpdf_library \<Rightarrow> widgets list \<Rightarrow> session_state \<Rightarrow> bool" where
  "overwrites_step1 pdf_output [] s = False"
| "overwrites_step1 pdf_output (w # ws) s =
     ((step (init_session s) = Some 1 \<and> submitted w)
      \<or> (step (init_session s) = Some 3 \<and> generate_clicked w \<and> start_over_clicked w)
      \<or> overwrites_step1 pdf_output ws (next_session pdf_output w s))"

text \<open>
  The kinds of entry the record holds: a string, an integer, and for the two optional
  contact fields either \<open>None\<close> or a string that is not empty and has no whitespace at
  either end. \<open>has_value\<close> says that the record holds something other than \<open>None\<close>
  under a key.
\<close>

fun is_text :: "pyval \<Rightarrow> bool" where
  "is_text (PyStr t) = True"
| "is_text v = False"

fun is_number :: "pyval \<Rightarrow> bool" where
  "is_number (PyInt i) = True"
| "is_number v = False"

fun is_optional_text :: "pyval \<Rightarrow> bool" where
  "is_optional_text PyNone = True"
| "is_optional_text (PyStr t) = (t \<noteq> [] \<and> \<not> py_isspace (hd t) \<and> \<not> py_isspace (last t))"
| "is_optional_text v = False"

fun is_true :: "pyval \<Rightarrow> bool" where
  "is_true (PyBool b) = b"
| "is_true v = False"

definition entry_is :: "(pyval \<Rightarrow> bool) \<Rightarrow> session_state \<Rightarrow> string \<Rightarrow> bool" where
  "entry_is P s k = (case field s k of None \<Rightarrow> False | Some v \<Rightarrow> P v)"

definition has_value :: "session_state \<Rightarrow> string \<Rightarrow> bool" where
  "has_value s k = entry_is (\<lambda>v. v \<noteq> PyNone) s k"

definition step1_complete :: "session_state \<Rightarrow> bool" where
  "step1_complete s =
     (entry_is is_text s ''situation'' \<and> entry_is is_text s ''timeline''
      \<and> entry_is is_number s ''complexity'')"

definition record_complete :: "session_state \<Rightarrow> bool" where
  "record_complete s =
     (step1_complete s
      \<and> entry_is is_text s ''main_concern'' \<and> entry_is is_text s ''contact_pref''
      \<and> entry_is is_optional_text s ''email'' \<and> entry_is is_optional_text s ''phone''
      \<and> entry_is is_true s ''interest_confirm'')"

text \<open>The invariant behind the claims on reachable sessions.\<close>

definition session_inv :: "session_state \<Rightarrow> bool" where
  "session_inv s =
     ((field s ''interest_confirm'' = None \<or> field s ''interest_confirm'' = Some (PyBool True))
      \<and> (step s = Some 2 \<longrightarrow> step1_complete s)
      \<and> (step s = Some 3 \<longrightarrow> record_complete s))"

section \<open>Latin-1 text\<close>

definition latin1 :: "pystr \<Rightarrow> bool" where
  "latin1 s = list_all (\<lambda>c. c < 256) s"

text \<open>The texts the calls hand to the library, in order.\<close>

fun texts_of :: "fpdf_call list \<Rightarrow> pystr list" where
  "texts_of [] = []"
| "texts_of (Cell w h txt ln al # cs) = txt # texts_of cs"
| "texts_of (MultiCell w h txt # cs) = txt # texts_of cs"
| "texts_of (c # cs) = texts_of cs"

section \<open>Concrete inputs\<close>

text \<open>
  A stand-in for the library in the concrete runs below: it never raises, ignores the clock
  and returns the texts of the calls, one after the other. The general theorems hold for
  every \<open>pdf_output\<close>.
\<close>

definition text_only_output :: fpdf_library where
  "text_only_output now calls = Inr (concat (texts_of calls))"

text \<open>The widget values of a run in which the user touched nothing.\<close>

definition default_widgets :: widgets where
  "default_widgets =
     \<lparr>situation = ascii ''Looking for help with personal or family taxes'',
      timeline = ascii ''Immediately / within the next 30 days'',
      complexity = 3,
      submitted = False,
      main_concern = [],
      contact_pref = ascii ''Email'',
      email = [],
      phone = [],
      interest_confirm = False,
      back_clicked = False,
      submit_final = False,
      today_str = ascii ''November 04, 2026'',
      generate_clicked = False,
      start_over_clicked = False,
      clock_now = 0\<rparr>"

text \<open>The end-to-end scenario of the specification: its two submissions.\<close>

definition scenario_step1 :: widgets where
  "scenario_step1 =
     default_widgets
       \<lparr>situation := ascii ''Looking for help with personal or family taxes'',
        timeline := ascii ''Immediately / within the next 30 days'',
        complexity := 4,
        submitted := True\<rparr>"

definition scenario_step2 :: widgets where
  "scenario_step2 =
     default_widgets
       \<lparr>main_concern := [],
        contact_pref := ascii ''Email'',
        email := ascii ''  '',
        phone := ascii ''555-1234'',
        interest_confirm := True,
        submit_final := True\<rparr>"

definition step1_done :: session_state where
  "step1_done = next_session text_only_output scenario_step1 empty_session"

definition scenario_session :: session_state where
  "scenario_session = exec text_only_output [scenario_step1, scenario_step2] empty_session"

definition scenario_record :: dict where
  "scenario_record =
     [''situation'' \<mapsto> PyStr (ascii ''Looking for help with personal or family taxes''),
      ''timeline'' \<mapsto> PyStr (ascii ''Immediately / within the next 30 days''),
      ''complexity'' \<mapsto> PyInt 4,
      ''main_concern'' \<mapsto> PyStr [],
      ''contact_pref'' \<mapsto> PyStr (ascii ''Email''),
      ''email'' \<mapsto> PyNone,
      ''phone'' \<mapsto> PyStr (ascii ''555-1234''),
      ''interest_confirm'' \<mapsto> PyBool True]"

section \<open>Facts about strings\<close>

lemma strip_blank: "strip s = [] \<longleftrightarrow> list_all py_isspace s"
proof -
  let ?m = "dropWhile py_isspace s"
  have "strip s = [] \<longleftrightarrow> (\<forall>c\<in>set ?m. py_isspace c)"
    by (simp add: strip_def dropWhile_eq_Nil_conv)
  also have "\<dots> \<longleftrightarrow> ?m = []"
  proof
    assume all: "\<forall>c\<in>set ?m. py_isspace c"
    show "?m = []"
    proof (rule ccontr)
      assume ne: "?m \<noteq> []"
      then have "\<not> py_isspace (hd ?m)" by (rule hd_dropWhile)
      moreover have "hd ?m \<in> set ?m" using ne by simp
      ultimately show False using all by blast
    qed
  next
    assume e: "?m = []"
    show "\<forall>c\<in>set ?m. py_isspace c" unfolding e by simp
  qed
  also have "\<dots> \<longleftrightarrow> list_all py_isspace s"
    by (simp add: dropWhile_eq_Nil_conv list_all_iff)
  finally show ?thesis .
qed

lemma strip_trailing:
  "dropWhile py_isspace s
     = strip s @ rev (takeWhile py_isspace (rev (dropWhile py_isspace s)))"
proof -
  let ?m = "dropWhile py_isspace s"
  have "?m = rev (rev ?m)" by simp
  also have "\<dots> = rev (takeWhile py_isspace (rev ?m) @ dropWhile py_isspace (rev ?m))"
    by (simp only: takeWhile_dropWhile_id)
  also have "\<dots> = strip s @ rev (takeWhile py_isspace (rev ?m))"
    by (simp only: rev_append strip_def)
  finally show ?thesis .
qed

lemma strip_decomp:
  "\<exists>pre post. s = pre @ strip s @ post \<and> list_all py_isspace pre \<and> list_all py_isspace post"
proof -
  let ?a = "takeWhile py_isspace s" and ?m = "dropWhile py_isspace s"
  let ?b = "rev (takeWhile py_isspace (rev ?m))"
  have "s = ?a @ ?m" by simp
  also have "?m = strip s @ ?b" by (rule strip_trailing)
  finally have 1: "s = ?a @ strip s @ ?b" .
  have 3: "list_all py_isspace ?a" by (simp add: list_all_iff) (meson set_takeWhileD)
  have 4: "list_all py_isspace ?b" by (simp add: list_all_iff) (meson set_takeWhileD)
  from 1 3 4 show ?thesis by blast
qed

lemma strip_ends:
  assumes "strip s \<noteq> []"
  shows "\<not> py_isspace (hd (strip s)) \<and> \<not> py_isspace (last (strip s))"
proof -
  let ?m = "dropWhile py_isspace s"
  let ?r = "dropWhile py_isspace (rev ?m)"
  have r: "?r \<noteq> []" using assms by (simp add: strip_def)
  then have "\<not> py_isspace (hd ?r)" by (rule hd_dropWhile)
  moreover have "last (strip s) = hd ?r" using r by (simp add: strip_def last_rev)
  ultimately have A: "\<not> py_isspace (last (strip s))" by simp
  have "hd ?m = hd (strip s @ rev (takeWhile py_isspace (rev ?m)))"
    using strip_trailing [of s] by simp
  also have "\<dots> = hd (strip s)" using assms by simp
  finally have hd: "hd ?m = hd (strip s)" .
  have "?m \<noteq> []"
  proof
    assume e: "?m = []"
    have "strip s = []" unfolding strip_def e by simp
    with assms show False ..
  qed
  then have "\<not> py_isspace (hd ?m)" by (rule hd_dropWhile)
  with hd A show ?thesis by simp
qed

lemma blank_to_none_cases:
  "blank_to_none x = (if list_all py_isspace x then PyNone else PyStr (strip x))"
  by (simp add: blank_to_none_def strip_blank)

lemma latin1_Nil: "latin1 []"
  by (simp add: latin1_def)

lemma latin1_Cons: "latin1 (c # s) = (c < 256 \<and> latin1 s)"
  by (simp add: latin1_def)

lemma latin1_append: "latin1 (a @ b) = (latin1 a \<and> latin1 b)"
  by (simp add: latin1_def)

lemma latin1_ascii: "latin1 (ascii cs)"
  by (induction cs) (auto simp: latin1_def ascii_def)

lemma latin1_body: "latin1 (body_text txt today) = (latin1 txt \<and> latin1 today)"
  by (auto simp add: body_text_def latin1_append latin1_ascii latin1_Cons latin1_Nil)

lemma encode_from_Inr: "encode_from i s = Inr bs \<Longrightarrow> latin1 s"
  by (induction s arbitrary: i bs) (auto simp: latin1_def split: sum.splits if_splits)

lemma encode_from_error:
  "encode_from i s = Inl e \<Longrightarrow> \<exists>j. e = UnicodeEncodeError j"
  by (induction s arbitrary: i) (auto split: sum.splits if_splits)

lemma encode_from_ok:
  "latin1 s \<Longrightarrow> encode_from i s = Inr (map of_nat s)"
  by (induction s arbitrary: i) (auto simp: latin1_def)

section \<open>Facts about a run\<close>

lemma responses_init_session: "\<exists>resp. responses (init_session s) = Some resp"
  by (cases "responses s") (auto simp: init_session_def Let_def)

lemma init_session_set:
  "step s = Some n \<Longrightarrow> responses s = Some resp \<Longrightarrow> init_session s = s"
  by (simp add: init_session_def)

lemma step_init_session:
  "step (init_session s) = Some (case step s of None \<Rightarrow> 1 | Some n \<Rightarrow> n)"
  by (cases "step s") (auto simp: init_session_def Let_def)

lemma field_init_session: "field (init_session s) k = field s k"
  by (cases "responses s") (auto simp: field_def init_session_def Let_def)

text \<open>The kinds of run, by the step found after initialisation.\<close>

lemma next_session_step1:
  "step (init_session s) = Some 1 \<Longrightarrow> responses (init_session s) = Some resp \<Longrightarrow>
   next_session out w s = fst (step1 w (init_session s) resp)"
  by (simp add: next_session_def run_script_def)

lemma next_session_step2:
  "step (init_session s) = Some 2 \<Longrightarrow> responses (init_session s) = Some resp \<Longrightarrow>
   next_session out w s = fst (step2 w (init_session s) resp)"
  by (simp add: next_session_def run_script_def)

lemma next_session_step3:
  "step (init_session s) = Some 3 \<Longrightarrow> responses (init_session s) = Some resp \<Longrightarrow>
   next_session out w s = fst (step3 out w (init_session s) resp)"
  by (simp add: next_session_def run_script_def)

lemma next_session_other:
  "step (init_session s) = Some n \<Longrightarrow> n \<noteq> 1 \<Longrightarrow> n \<noteq> 2 \<Longrightarrow> n \<noteq> 3 \<Longrightarrow>
   next_session out w s = init_session s"
  using responses_init_session [of s]
  by (auto simp add: next_session_def run_script_def)

lemma step2_confirmed:
  assumes "step s = Some 2" and "responses s = Some resp"
    and "\<not> back_clicked w" and "submit_final w" and "interest_confirm w"
  shows "next_session out w s =
           \<lparr>step = Some 3,
            responses = Some (resp(''main_concern'' \<mapsto> PyStr (main_concern w),
                                   ''contact_pref'' \<mapsto> PyStr (contact_pref w),
                                   ''email'' \<mapsto> blank_to_none (email w),
                                   ''phone'' \<mapsto> blank_to_none (phone w),
                                   ''interest_confirm'' \<mapsto> PyBool True))\<rparr>"
  using assms
  by (simp add: next_session_def run_script_def init_session_set step2_def)

text \<open>Step 3 is entered only from step 2, and step 2 only from step 1.\<close>

lemma enters_step3:
  assumes "step (next_session out w s) = Some 3"
  shows "step (init_session s) = Some 3
       \<or> (step (init_session s) = Some 2 \<and> \<not> back_clicked w \<and> submit_final w \<and> interest_confirm w)"
proof -
  obtain resp where r: "responses (init_session s) = Some resp"
    using responses_init_session by blast
  obtain n where n: "step (init_session s) = Some n"
    by (simp add: step_init_session)
  consider "n = 1" | "n = 2" | "n = 3" | "n \<noteq> 1" "n \<noteq> 2" "n \<noteq> 3" by blast
  then show ?thesis
  proof cases
    case 1
    with assms n r show ?thesis
      by (auto simp: next_session_step1 step1_def split: if_splits)
  next
    case 2
    with assms n r show ?thesis
      by (auto simp: next_session_step2 step2_def split: if_splits)
  next
    case 3
    with n show ?thesis by simp
  next
    case 4
    with assms n show ?thesis by (simp add: next_session_other)
  qed
qed

lemma enters_step2:
  assumes "step (next_session out w s) = Some 2"
  shows "step (init_session s) = Some 2 \<or> (step (init_session s) = Some 1 \<and> submitted w)"
proof -
  obtain resp where r: "responses (init_session s) = Some resp"
    using responses_init_session by blast
  obtain n where n: "step (init_session s) = Some n"
    by (simp add: step_init_session)
  consider "n = 1" | "n = 2" | "n = 3" | "n \<noteq> 1" "n \<noteq> 2" "n \<noteq> 3" by blast
  then show ?thesis
  proof cases
    case 1
    with assms n r show ?thesis
      by (auto simp: next_session_step1 step1_def split: if_splits)
  next
    case 2
    with n show ?thesis by simp
  next
    case 3
    with assms n r show ?thesis
      by (auto simp: next_session_step3 step3_def split: if_splits sum.splits)
  next
    case 4
    with assms n show ?thesis by (simp add: next_session_other)
  qed
qed

lemma step3_history:
  "step (exec out ws s) = Some 3 \<Longrightarrow>
     step (init_session s) = Some 3
   \<or> (step (init_session s) = Some 2 \<and> confirms_step2 out ws s)
   \<or> submits_both out ws s"
proof (induction ws arbitrary: s)
  case Nil
  then show ?case by (simp add: step_init_session)
next
  case (Cons w ws)
  let ?s' = "next_session out w s"
  from Cons.prems have "step (exec out ws ?s') = Some 3" by simp
  from Cons.IH [OF this]
  consider (a) "step (init_session ?s') = Some 3"
    | (b) "step (init_session ?s') = Some 2" "confirms_step2 out ws ?s'"
    | (c) "submits_both out ws ?s'" by blast
  then show ?case
  proof cases
    case a
    then have "step ?s' = Some 3"
      by (cases "step ?s'") (auto simp: step_init_session)
    from enters_step3 [OF this] show ?thesis by auto
  next
    case b
    then have "step ?s' = Some 2"
      by (cases "step ?s'") (auto simp: step_init_session)
    from enters_step2 [OF this] b show ?thesis by auto
  next
    case c
    then show ?thesis by simp
  qed
qed

text \<open>Every run keeps the invariant.\<close>

lemma session_inv_empty: "session_inv empty_session"
  by (simp add: session_inv_def empty_session_def field_def)

lemma entry_is_init_session: "entry_is P (init_session s) k = entry_is P s k"
  by (simp add: entry_is_def field_init_session)

lemma session_inv_init: "session_inv s \<Longrightarrow> session_inv (init_session s)"
  by (cases "step s")
     (auto simp: session_inv_def field_init_session step1_complete_def record_complete_def
        entry_is_init_session step_init_session entry_is_def)

lemma is_optional_text_blank_to_none: "is_optional_text (blank_to_none x)"
  using strip_ends [of x] by (simp add: blank_to_none_def)

lemma session_inv_next:
  assumes "session_inv s"
  shows "session_inv (next_session out w s)"
proof -
  let ?s = "init_session s"
  have inv: "session_inv ?s" using assms by (rule session_inv_init)
  obtain resp where r: "responses ?s = Some resp"
    using responses_init_session by blast
  obtain n where n: "step ?s = Some n"
    by (simp add: step_init_session)
  consider "n = 1" | "n = 2" | "n = 3" | "n \<noteq> 1" "n \<noteq> 2" "n \<noteq> 3" by blast
  then show ?thesis
  proof cases
    case 1
    with inv n r show ?thesis
      by (auto simp: next_session_step1 step1_def session_inv_def field_def entry_is_def
            step1_complete_def)
  next
    case 2
    with inv n r show ?thesis
      by (auto simp: next_session_step2 step2_def session_inv_def field_def entry_is_def
            step1_complete_def record_complete_def is_optional_text_blank_to_none)
  next
    case 3
    with inv n r show ?thesis
      by (auto simp: next_session_step3 step3_def session_inv_def field_def entry_is_def
            split: sum.splits)
  next
    case 4
    with inv n show ?thesis by (simp add: next_session_other)
  qed
qed

lemma record_complete_has_fields: "record_complete s \<Longrightarrow> has_fields field_names s"
  by (auto simp: record_complete_def step1_complete_def entry_is_def has_fields_def
        field_names_def split: option.splits)

lemma session_inv_exec: "session_inv s \<Longrightarrow> session_inv (exec out ws s)"
  by (induction ws arbitrary: s) (auto intro: session_inv_next)

lemma session_inv_reachable: "reachable out s \<Longrightarrow> session_inv s"
  by (induction rule: reachable.induct) (auto intro: session_inv_next session_inv_empty)

lemma reachable_exec: "reachable out s \<Longrightarrow> reachable out (exec out ws s)"
  by (induction ws arbitrary: s) (auto intro: reachable.run)

lemma reachable_iff_exec: "reachable out s \<longleftrightarrow> (\<exists>ws. s = exec out ws empty_session)"
proof
  assume "reachable out s"
  then show "\<exists>ws. s = exec out ws empty_session"
  proof (induction rule: reachable.induct)
    case start
    have "empty_session = exec out [] empty_session" by simp
    then show ?case by blast
  next
    case (run s w)
    then obtain ws where ws: "s = exec out ws empty_session" by blast
    have "exec out (ws @ [w]) s0 = next_session out w (exec out ws s0)" for s0
      by (induction ws arbitrary: s0) simp_all
    with ws have "next_session out w s = exec out (ws @ [w]) empty_session" by simp
    then show ?case by blast
  qed
next
  assume "\<exists>ws. s = exec out ws empty_session"
  then show "reachable out s" by (auto intro: reachable_exec reachable.start)
qed

text \<open>Runs that leave the step-1 entries alone.\<close>

lemma run_keeps_step1_fields:
  assumes "\<not> (step (init_session s) = Some 1 \<and> submitted w)"
    and "\<not> (step (init_session s) = Some 3 \<and> generate_clicked w \<and> start_over_clicked w)"
    and "k \<in> set step1_fields"
  shows "field (next_session out w s) k = field s k"
proof -
  let ?s = "init_session s"
  obtain resp where r: "responses ?s = Some resp"
    using responses_init_session by blast
  obtain n where n: "step ?s = Some n"
    by (simp add: step_init_session)
  have f: "field s k = resp k"
    using r field_init_session [of s k] by (simp add: field_def)
  consider "n = 1" | "n = 2" | "n = 3" | "n \<noteq> 1" "n \<noteq> 2" "n \<noteq> 3" by blast
  then show ?thesis
  proof cases
    case 1
    with assms n r f show ?thesis
      by (auto simp: next_session_step1 step1_def field_def)
  next
    case 2
    with assms n r f show ?thesis
      by (auto simp: next_session_step2 step2_def field_def step1_fields_def)
  next
    case 3
    with assms n r f show ?thesis
      by (auto simp: next_session_step3 step3_def field_def split: sum.splits)
  next
    case 4
    with n show ?thesis by (simp add: next_session_other field_init_session)
  qed
qed

lemma exec_keeps_step1_fields:
  "\<not> overwrites_step1 out ws s \<Longrightarrow> k \<in> set step1_fields \<Longrightarrow>
   field (exec out ws s) k = field s k"
proof (induction ws arbitrary: s)
  case Nil
  then show ?case by simp
next
  case (Cons w ws)
  from Cons.prems have "field (exec out ws (next_session out w s)) k
      = field (next_session out w s) k"
    by (intro Cons.IH) simp_all
  also from Cons.prems have "\<dots> = field s k"
    by (intro run_keeps_step1_fields) simp_all
  finally show ?case by simp
qed

section \<open>The scenario, evaluated\<close>

lemma step1_done_eq:
  "step1_done =
     \<lparr>step = Some 2,
      responses = Some [''situation'' \<mapsto> PyStr (ascii ''Looking for help with personal or family taxes''),
                        ''timeline'' \<mapsto> PyStr (ascii ''Immediately / within the next 30 days''),
                        ''complexity'' \<mapsto> PyInt 4]\<rparr>"
  by (simp add: step1_done_def next_session_def run_script_def init_session_def
        empty_session_def step1_def scenario_step1_def default_widgets_def)

lemma scenario_session_eq:
  "scenario_session = \<lparr>step = Some 3, responses = Some scenario_record\<rparr>"
  by (simp add: scenario_session_def next_session_def run_script_def init_session_def
        empty_session_def step1_def step2_def scenario_step1_def scenario_step2_def
        default_widgets_def scenario_record_def blank_to_none_def strip_def py_isspace_def
        ascii_def)

lemma scenario_summary:
  "summary_text scenario_record =
     ascii ''Reason for reaching out: Looking for help with personal or family taxes'' @ nl
     @ ascii ''Timeline: Immediately / within the next 30 days'' @ nl
     @ ascii ''Complexity level: 4/5'' @ nl
     @ ascii ''Main concern: None provided'' @ nl
     @ ascii ''Preferred contact: Email'' @ nl
     @ ascii ''Email: Not provided'' @ nl
     @ ascii ''Phone: 555-1234''"
  by (simp add: summary_text_def summary_lines_def scenario_record_def get_def get_default_def
        py_or_def digits.simps ascii_def)

lemma scenario_reachable: "reachable text_only_output scenario_session"
  unfolding scenario_session_def by (rule reachable_exec) (rule reachable.start)

section \<open>The guarded submit of step 2\<close>

text \<open>
  Claim C1. A run that finds the session at step 2 with the final submit button pressed
  (and the back button not pressed) and the confirmation checkbox unchecked leaves the
  whole session as it was, whatever the other widgets hold: the step stays 2, the response
  record is the same, the page shows the warning, and the run ends without a rerun.
\<close>

theorem step2_unconfirmed_stays:
  assumes "step s = Some 2" and "responses s = Some resp"
    and "\<not> back_clicked w" and "submit_final w" and "\<not> interest_confirm w"
  shows "next_session pdf_output w s = s
       \<and> step (next_session pdf_output w s) = Some 2
       \<and> responses (next_session pdf_output w s) = Some resp
       \<and> Warning (ascii ''Please confirm interest to continue.'') \<in> set (page pdf_output w s)
       \<and> ending pdf_output w s = Done"
  using assms
  by (simp add: next_session_def page_def ending_def run_script_def init_session_set step2_def)

theorem step2_unconfirmed_stays_witness:
  "step step1_done = Some 2
   \<and> \<not> back_clicked (scenario_step2\<lparr>interest_confirm := False\<rparr>)
   \<and> submit_final (scenario_step2\<lparr>interest_confirm := False\<rparr>)
   \<and> \<not> interest_confirm (scenario_step2\<lparr>interest_confirm := False\<rparr>)
   \<and> next_session text_only_output (scenario_step2\<lparr>interest_confirm := False\<rparr>) step1_done
       = step1_done
   \<and> Warning (ascii ''Please confirm interest to continue.'')
       \<in> set (page text_only_output (scenario_step2\<lparr>interest_confirm := False\<rparr>) step1_done)"
proof -
  let ?w = "scenario_step2\<lparr>interest_confirm := False\<rparr>"
  have h: "step step1_done = Some 2" by (simp add: step1_done_eq)
  obtain resp where r: "responses step1_done = Some resp" by (simp add: step1_done_eq)
  have g: "\<not> back_clicked ?w" "submit_final ?w" "\<not> interest_confirm ?w"
    by (simp_all add: scenario_step2_def default_widgets_def)
  from step2_unconfirmed_stays [OF h r g, of text_only_output] h g show ?thesis by blast
qed

text \<open>
  Claim C2. A run that finds the session at step 2 and takes the confirmed submit stores
  under \<open>email\<close> (and likewise under \<open>phone\<close>) the value \<open>None\<close> when the input is
  empty or all whitespace, and otherwise the stripped input, which is then not empty, has
  no whitespace at either end, and is the input without a whitespace prefix and suffix.
\<close>

theorem step2_blank_contact_is_none:
  assumes "step s = Some 2" and "responses s = Some resp"
    and "\<not> back_clicked w" and "submit_final w" and "interest_confirm w"
  shows "field (next_session out w s) ''email''
           = Some (if list_all py_isspace (email w) then PyNone else PyStr (strip (email w)))
       \<and> field (next_session out w s) ''phone''
           = Some (if list_all py_isspace (phone w) then PyNone else PyStr (strip (phone w)))
       \<and> (\<not> list_all py_isspace (email w) \<longrightarrow>
            strip (email w) \<noteq> [] \<and> \<not> py_isspace (hd (strip (email w)))
            \<and> \<not> py_isspace (last (strip (email w))))
       \<and> (\<not> list_all py_isspace (phone w) \<longrightarrow>
            strip (phone w) \<noteq> [] \<and> \<not> py_isspace (hd (strip (phone w)))
            \<and> \<not> py_isspace (last (strip (phone w))))
       \<and> (\<exists>pre post. email w = pre @ strip (email w) @ post
              \<and> list_all py_isspace pre \<and> list_all py_isspace post)
       \<and> (\<exists>pre post. phone w = pre @ strip (phone w) @ post
              \<and> list_all py_isspace pre \<and> list_all py_isspace post)"
proof -
  have "field (next_session out w s) ''email'' = Some (blank_to_none (email w))"
    and "field (next_session out w s) ''phone'' = Some (blank_to_none (phone w))"
    by (simp_all add: step2_confirmed [OF assms] field_def)
  moreover have "\<not> list_all py_isspace x \<Longrightarrow>
      strip x \<noteq> [] \<and> \<not> py_isspace (hd (strip x)) \<and> \<not> py_isspace (last (strip x))" for x
    using strip_ends [of x] by (simp add: strip_blank)
  ultimately show ?thesis
    using strip_decomp [of "email w"] strip_decomp [of "phone w"]
    by (simp add: blank_to_none_cases)
qed

theorem step2_blank_contact_is_none_witness:
  "step step1_done = Some 2
   \<and> \<not> back_clicked scenario_step2 \<and> submit_final scenario_step2
   \<and> interest_confirm scenario_step2
   \<and> email scenario_step2 = ascii ''  ''
   \<and> phone scenario_step2 = ascii ''555-1234''
   \<and> field (next_session text_only_output scenario_step2 step1_done) ''email'' = Some PyNone
   \<and> field (next_session text_only_output scenario_step2 step1_done) ''phone''
        = Some (PyStr (ascii ''555-1234''))"
proof -
  have h: "step step1_done = Some 2" "\<not> back_clicked scenario_step2"
      "submit_final scenario_step2" "interest_confirm scenario_step2"
    by (simp_all add: step1_done_eq scenario_step2_def default_widgets_def)
  obtain resp where r: "responses step1_done = Some resp"
    by (simp add: step1_done_eq)
  have e: "email scenario_step2 = ascii ''  ''" "phone scenario_step2 = ascii ''555-1234''"
    by (simp_all add: scenario_step2_def default_widgets_def)
  have s: "list_all py_isspace (ascii ''  '')" "\<not> list_all py_isspace (ascii ''555-1234'')"
     "strip (ascii ''555-1234'') = ascii ''555-1234''"
    by (simp_all add: ascii_def py_isspace_def strip_def)
  from step2_blank_contact_is_none [OF h(1) r h(2) h(3) h(4), of text_only_output] h e s
  show ?thesis by simp
qed

section \<open>Reaching step 3\<close>

text \<open>
  Claim C3, as stated, wants a value under each of the eight keys whenever the step is 3.
  The scenario of the specification, with its blank email input, ends at step 3 with
  \<open>None\<close> under \<open>email\<close>: lines 139 and 140 store \<open>None\<close> for a blank contact input.
\<close>

theorem step3_blank_email_counterexample:
  "step (exec text_only_output [scenario_step1, scenario_step2] empty_session) = Some 3
   \<and> field (exec text_only_output [scenario_step1, scenario_step2] empty_session) ''email''
       = Some PyNone
   \<and> \<not> has_value (exec text_only_output [scenario_step1, scenario_step2] empty_session)
         ''email''
   \<and> \<not> list_all (has_value (exec text_only_output [scenario_step1, scenario_step2] empty_session))
         field_names"
  using scenario_session_eq
  by (simp add: scenario_session_def has_value_def entry_is_def field_def scenario_record_def
        field_names_def)

text \<open>
  Claim C3, amended. When a sequence of runs from the empty session ends at step 3, some
  run of it submitted step 1 and a later run submitted step 2 with the confirmation
  checked. The response record then has an entry under each of the eight field names:
  strings under \<open>situation\<close>, \<open>timeline\<close>, \<open>main_concern\<close> (which may be empty) and
  \<open>contact_pref\<close>, an integer under \<open>complexity\<close>, \<open>True\<close> under
  \<open>interest_confirm\<close>, and under \<open>email\<close> and under \<open>phone\<close> either \<open>None\<close> or a
  string that is not empty and has no whitespace at either end.
\<close>

theorem step3_requires_both_submits:
  assumes "step (exec out ws empty_session) = Some 3"
  shows "submits_both out ws empty_session
       \<and> record_complete (exec out ws empty_session)
       \<and> has_fields field_names (exec out ws empty_session)
       \<and> field (exec out ws empty_session) ''interest_confirm'' = Some (PyBool True)"
proof -
  have "step (init_session empty_session) = Some 1"
    by (simp add: step_init_session empty_session_def)
  with step3_history [OF assms] have both: "submits_both out ws empty_session" by simp
  have inv: "session_inv (exec out ws empty_session)"
    by (rule session_inv_exec) (rule session_inv_empty)
  with assms have complete: "record_complete (exec out ws empty_session)"
    by (simp add: session_inv_def)
  then have "is_true (the (field (exec out ws empty_session) ''interest_confirm''))"
    and "field (exec out ws empty_session) ''interest_confirm'' \<noteq> None"
    by (auto simp: record_complete_def entry_is_def split: option.splits)
  with inv have "field (exec out ws empty_session) ''interest_confirm'' = Some (PyBool True)"
    by (auto simp: session_inv_def)
  with both complete record_complete_has_fields [OF complete] show ?thesis by simp
qed

theorem step3_requires_both_submits_witness:
  "step (exec text_only_output [scenario_step1, scenario_step2] empty_session) = Some 3
   \<and> submits_both text_only_output [scenario_step1, scenario_step2] empty_session
   \<and> record_complete (exec text_only_output [scenario_step1, scenario_step2] empty_session)
   \<and> has_fields field_names (exec text_only_output [scenario_step1, scenario_step2] empty_session)"
proof -
  have h: "step (exec text_only_output [scenario_step1, scenario_step2] empty_session) = Some 3"
    using scenario_session_eq by (simp add: scenario_session_def)
  from step3_requires_both_submits [OF h] h show ?thesis by blast
qed

text \<open>
  Claim C10. In every reachable session, an entry of the response record under
  \<open>interest_confirm\<close> is \<open>True\<close>.
\<close>

theorem confirm_flag_never_false:
  assumes "reachable out s" and "field s ''interest_confirm'' = Some v"
  shows "v = PyBool True"
  using session_inv_reachable [OF assms(1)] assms(2) by (auto simp: session_inv_def)

theorem confirm_flag_never_false_witness:
  "reachable text_only_output scenario_session
   \<and> field scenario_session ''interest_confirm'' = Some (PyBool True)"
proof -
  have f: "field scenario_session ''interest_confirm'' = Some (PyBool True)"
    by (simp add: scenario_session_eq field_def scenario_record_def)
  from confirm_flag_never_false [OF scenario_reachable f] scenario_reachable f
  show ?thesis by blast
qed

section \<open>Encoding the document\<close>

text \<open>
  What the source itself settles about the renderer's failures. An exception of the
  library leaves \<open>create_summary_pdf\<close> as it is. A string the library returns is encoded
  by line 29: the result is that string, one byte for each character, when it has no
  character above U+00FF, and a \<open>UnicodeEncodeError\<close> otherwise. The texts handed to the
  library are Latin-1 exactly when the summary text and the date are, the fixed texts of
  the document being ASCII. Which of its texts make the library raise, and which
  characters its string has, is the library's matter.
\<close>

lemma create_summary_pdf_raised:
  "pdf_output now (pdf_calls txt today) = Inl e \<Longrightarrow>
   create_summary_pdf pdf_output now txt today = Inl e"
  by (simp add: create_summary_pdf_def)

lemma create_summary_pdf_returned:
  assumes "pdf_output now (pdf_calls txt today) = Inr buffer"
  shows "(latin1 buffer \<longrightarrow>
            create_summary_pdf pdf_output now txt today = Inr (map of_nat buffer))
       \<and> (\<not> latin1 buffer \<longrightarrow>
            (\<exists>i. create_summary_pdf pdf_output now txt today = Inl (UnicodeEncodeError i)))"
proof -
  have r: "create_summary_pdf pdf_output now txt today = encode_from 0 buffer"
    using assms by (simp add: create_summary_pdf_def encode_latin1_def)
  have "\<exists>i. encode_from 0 buffer = Inl (UnicodeEncodeError i)" if "\<not> latin1 buffer"
  proof (cases "encode_from 0 buffer")
    case (Inl e)
    then show ?thesis using encode_from_error [of 0 buffer e] by auto
  next
    case (Inr bs)
    then have "latin1 buffer" by (rule encode_from_Inr)
    with that show ?thesis by simp
  qed
  then show ?thesis by (auto simp: r encode_from_ok)
qed

lemma texts_of_pdf_calls:
  "list_all latin1 (texts_of (pdf_calls txt today)) = (latin1 txt \<and> latin1 today)"
  by (simp add: pdf_calls_def latin1_ascii latin1_body)

text \<open>
  The last of the six answers to the first question has an en dash, which Latin-1 does
  not have.
\<close>

lemma en_dash_not_latin1: "\<not> latin1 (situation_options ! 5)"
  by (simp add: situation_options_def latin1_append latin1_Cons)

section \<open>What the transitions leave alone\<close>

text \<open>
  Claim C6. A run that finds the session at step 1 with the continue button pressed moves
  to step 2 and stores the three inputs under \<open>situation\<close>, \<open>timeline\<close> and
  \<open>complexity\<close>, whatever their values. Whatever the next run does at step 2 (back,
  rejected or accepted submit, or nothing), the three entries are the same after it; back
  returns to step 1 and the confirmed submit moves to step 3. More generally the three
  entries are the same after every sequence of later runs in which step 1 is not submitted
  again and the start-over handler is not reached, so they are in the final record.
\<close>

theorem step1_values_retained:
  assumes "step (init_session s) = Some 1" and "submitted w1"
  shows "step (next_session out w1 s) = Some 2
       \<and> field (next_session out w1 s) ''situation'' = Some (PyStr (situation w1))
       \<and> field (next_session out w1 s) ''timeline'' = Some (PyStr (timeline w1))
       \<and> field (next_session out w1 s) ''complexity'' = Some (PyInt (complexity w1))
       \<and> list_all (\<lambda>k. field (next_session out w2 (next_session out w1 s)) k
                         = field (next_session out w1 s) k) step1_fields
       \<and> (back_clicked w2 \<longrightarrow> step (next_session out w2 (next_session out w1 s)) = Some 1)
       \<and> (\<not> back_clicked w2 \<and> submit_final w2 \<and> interest_confirm w2 \<longrightarrow>
            step (next_session out w2 (next_session out w1 s)) = Some 3)
       \<and> (\<not> overwrites_step1 out ws (next_session out w1 s) \<longrightarrow>
            list_all (\<lambda>k. field (exec out ws (next_session out w1 s)) k
                           = field (next_session out w1 s) k) step1_fields)"
proof -
  obtain resp where r: "responses (init_session s) = Some resp"
    using responses_init_session by blast
  let ?s1 = "next_session out w1 s"
  have s1: "?s1 = \<lparr>step = Some 2,
                    responses = Some (resp(''situation'' \<mapsto> PyStr (situation w1),
                                           ''timeline'' \<mapsto> PyStr (timeline w1),
                                           ''complexity'' \<mapsto> PyInt (complexity w1)))\<rparr>"
    using assms r by (simp add: next_session_step1 step1_def)
  have i: "init_session ?s1 = ?s1" by (simp add: s1 init_session_def)
  let ?r1 = "resp(''situation'' \<mapsto> PyStr (situation w1),
                  ''timeline'' \<mapsto> PyStr (timeline w1),
                  ''complexity'' \<mapsto> PyInt (complexity w1))"
  have a: "step (init_session ?s1) = Some 2" unfolding i by (simp add: s1)
  have b: "responses (init_session ?s1) = Some ?r1" unfolding i by (simp add: s1)
  have s2: "next_session out w2 ?s1 = fst (step2 w2 ?s1 ?r1)"
    using next_session_step2 [OF a b] by (simp only: i)
  have later: "\<not> overwrites_step1 out ws ?s1 \<Longrightarrow>
      list_all (\<lambda>k. field (exec out ws ?s1) k = field ?s1 k) step1_fields"
    by (simp add: list_all_iff exec_keeps_step1_fields)
  have "step ?s1 = Some 2"
    and "field ?s1 ''situation'' = Some (PyStr (situation w1))"
    and "field ?s1 ''timeline'' = Some (PyStr (timeline w1))"
    and "field ?s1 ''complexity'' = Some (PyInt (complexity w1))"
    by (simp_all add: s1 field_def)
  moreover have "list_all (\<lambda>k. field (next_session out w2 ?s1) k = field ?s1 k) step1_fields"
    and "back_clicked w2 \<longrightarrow> step (next_session out w2 ?s1) = Some 1"
    and "\<not> back_clicked w2 \<and> submit_final w2 \<and> interest_confirm w2 \<longrightarrow>
           step (next_session out w2 ?s1) = Some 3"
    unfolding s2 unfolding s1
    by (simp_all add: field_def step2_def step1_fields_def)
  ultimately show ?thesis using later by blast
qed

theorem step1_values_retained_witness:
  "step (init_session empty_session) = Some 1 \<and> submitted scenario_step1
   \<and> situation scenario_step1 \<in> set situation_options
   \<and> timeline scenario_step1 \<in> set timeline_options
   \<and> 1 \<le> complexity scenario_step1 \<and> complexity scenario_step1 \<le> 5
   \<and> \<not> back_clicked scenario_step2 \<and> submit_final scenario_step2
   \<and> interest_confirm scenario_step2
   \<and> step step1_done = Some 2
   \<and> field step1_done ''complexity'' = Some (PyInt 4)
   \<and> step scenario_session = Some 3
   \<and> field scenario_session ''complexity'' = Some (PyInt 4)
   \<and> \<not> overwrites_step1 text_only_output
         [scenario_step2, default_widgets\<lparr>generate_clicked := True\<rparr>] step1_done
   \<and> field (exec text_only_output
               [scenario_step2, default_widgets\<lparr>generate_clicked := True\<rparr>] step1_done)
         ''complexity'' = Some (PyInt 4)"
proof -
  have h: "step (init_session empty_session) = Some 1" "submitted scenario_step1"
    by (simp_all add: init_session_def empty_session_def scenario_step1_def default_widgets_def)
  have v: "situation scenario_step1 \<in> set situation_options"
      "timeline scenario_step1 \<in> set timeline_options"
      "1 \<le> complexity scenario_step1" "complexity scenario_step1 \<le> 5"
      "complexity scenario_step1 = 4"
    by (simp_all add: scenario_step1_def default_widgets_def situation_options_def
          timeline_options_def)
  have g: "\<not> back_clicked scenario_step2" "submit_final scenario_step2"
      "interest_confirm scenario_step2"
    by (simp_all add: scenario_step2_def default_widgets_def)
  have e: "scenario_session = next_session text_only_output scenario_step2 step1_done"
    by (simp add: scenario_session_def step1_done_def)
  have n: "\<not> overwrites_step1 text_only_output
             [scenario_step2, default_widgets\<lparr>generate_clicked := True\<rparr>] step1_done"
    using scenario_session_eq
    by (simp add: e [symmetric] step1_done_eq init_session_def default_widgets_def
          scenario_step2_def)
  have c: "field step1_done ''complexity'' = Some (PyInt 4)"
    by (simp add: step1_done_eq field_def)
  from step1_values_retained
         [OF h, of text_only_output scenario_step2
            "[scenario_step2, default_widgets\<lparr>generate_clicked := True\<rparr>]"] h v g n c
  show ?thesis
    by (simp add: e step1_done_def step1_fields_def)
qed

text \<open>
  Claim C7. A run that finds the session at step 3 with the generate button pressed (the
  start-over button, first shown by this very run, not pressed) leaves the session as it
  was: the step is 3 and the response record is the same. When the renderer returns bytes
  the page offers them for download under the dated file name; when it raises, the run
  ends with that error.
\<close>

theorem generate_keeps_session:
  assumes "step s = Some 3" and "responses s = Some resp"
    and "generate_clicked w" and "\<not> start_over_clicked w"
  shows "next_session out w s = s
       \<and> step (next_session out w s) = Some 3
       \<and> responses (next_session out w s) = Some resp
       \<and> (\<forall>pdf_bytes. create_summary_pdf out (clock_now w) (summary_text resp) (today_str w) = Inr pdf_bytes \<longrightarrow>
             DownloadButton pdf_bytes (ascii ''CPA_Interest_Summary_'' @ today_str w @ ascii ''.pdf'')
               ''application/pdf'' \<in> set (page out w s)
             \<and> ending out w s = Done)
       \<and> (\<forall>e. create_summary_pdf out (clock_now w) (summary_text resp) (today_str w) = Inl e \<longrightarrow>
             ending out w s = Raised e)"
  using assms
  by (auto simp: next_session_def page_def ending_def run_script_def init_session_set step3_def
        generated_view_def split: sum.splits)

theorem generate_keeps_session_witness:
  "step scenario_session = Some 3 \<and> responses scenario_session = Some scenario_record
   \<and> generate_clicked (default_widgets\<lparr>generate_clicked := True\<rparr>)
   \<and> \<not> start_over_clicked (default_widgets\<lparr>generate_clicked := True\<rparr>)
   \<and> next_session text_only_output (default_widgets\<lparr>generate_clicked := True\<rparr>) scenario_session
       = scenario_session"
proof -
  let ?w = "default_widgets\<lparr>generate_clicked := True\<rparr>"
  have h: "step scenario_session = Some 3" "responses scenario_session = Some scenario_record"
    by (simp_all add: scenario_session_eq)
  have g: "generate_clicked ?w" "\<not> start_over_clicked ?w"
    by (simp_all add: default_widgets_def)
  from generate_keeps_session [OF h g, of text_only_output] h g show ?thesis by blast
qed

section \<open>The end-to-end scenario\<close>

text \<open>
  Claim C8, as stated, wants \<open>main_concern\<close> absent or \<open>None\<close> in the record of the
  scenario. Line 137 stores the text area's value as it is, here the empty string.
\<close>

theorem scenario_main_concern_counterexample:
  "field scenario_session ''main_concern'' = Some (PyStr [])
   \<and> field scenario_session ''main_concern'' \<noteq> None
   \<and> field scenario_session ''main_concern'' \<noteq> Some PyNone"
  by (simp add: scenario_session_eq field_def scenario_record_def)

text \<open>
  Claim C8, amended. The scenario ends at step 3 with the record \<open>scenario_record\<close>:
  \<open>main_concern\<close> is the empty string, \<open>email\<close> is \<open>None\<close> and \<open>phone\<close> is
  \<open>555-1234\<close>. The summary text has \<open>Main concern: None provided\<close>,
  \<open>Complexity level: 4/5\<close>, \<open>Phone: 555-1234\<close> and \<open>Email: Not provided\<close>, and
  nowhere \<open>Email:\<close> followed by two spaces.
\<close>

theorem scenario_end_to_end:
  "step scenario_session = Some 3
   \<and> responses scenario_session = Some scenario_record
   \<and> field scenario_session ''main_concern'' = Some (PyStr [])
   \<and> field scenario_session ''email'' = Some PyNone
   \<and> field scenario_session ''phone'' = Some (PyStr (ascii ''555-1234''))
   \<and> contains (ascii ''Main concern: None provided'') (summary_text scenario_record)
   \<and> contains (ascii ''Complexity level: 4/5'') (summary_text scenario_record)
   \<and> contains (ascii ''Phone: 555-1234'') (summary_text scenario_record)
   \<and> contains (ascii ''Email: Not provided'') (summary_text scenario_record)
   \<and> \<not> contains (ascii ''Email:  '') (summary_text scenario_record)"
proof -
  have "field scenario_session ''main_concern'' = Some (PyStr [])"
    and "field scenario_session ''email'' = Some PyNone"
    and "field scenario_session ''phone'' = Some (PyStr (ascii ''555-1234''))"
    by (simp_all add: scenario_session_eq field_def scenario_record_def)
  moreover have "contains (ascii ''Main concern: None provided'') (summary_text scenario_record)"
    unfolding scenario_summary by (simp add: ascii_def)
  moreover have "contains (ascii ''Complexity level: 4/5'') (summary_text scenario_record)"
    unfolding scenario_summary by (simp add: ascii_def)
  moreover have "contains (ascii ''Phone: 555-1234'') (summary_text scenario_record)"
    unfolding scenario_summary by (simp add: ascii_def)
  moreover have "contains (ascii ''Email: Not provided'') (summary_text scenario_record)"
    unfolding scenario_summary by (simp add: ascii_def)
  moreover have "\<not> contains (ascii ''Email:  '') (summary_text scenario_record)"
    unfolding scenario_summary by (simp add: ascii_def)
  ultimately show ?thesis by (simp add: scenario_session_eq)
qed

section \<open>Starting over\<close>

text \<open>
  The handler of lines 194 to 197 sits inside the branch of the generate button
  (line 170). A run that reaches it clears the session, and the rerun then shows step 1
  on a fresh session.
\<close>

lemma start_over_handler_clears:
  assumes "step s = Some 3" and "responses s = Some resp"
    and "generate_clicked w" and "start_over_clicked w"
    and "create_summary_pdf out (clock_now w) (summary_text resp) (today_str w) = Inr pdf_bytes"
  shows "next_session out w s = empty_session \<and> ending out w s = Rerun"
  using assms
  by (simp add: next_session_def ending_def run_script_def init_session_set step3_def
        empty_session_def)

lemma fresh_run_shows_step1:
  "\<not> submitted w \<Longrightarrow>
   run_script out w empty_session = (\<lparr>step = Some 1, responses = Some Map.empty\<rparr>, step1_view, Done)"
  by (simp add: run_script_def init_session_def empty_session_def step1_def)

text \<open>
  Claim C9. Streamlit reports a button as pressed only in the run its own click starts, so
  the run started by a click on the start-over button finds the generate button not
  pressed. That run, on the session the scenario ends with, does not reach the handler:
  the session is the same after it, still at step 3 with the previous answers, and the
  page is the review without the download.
\<close>

theorem start_over_click_keeps_answers:
  "next_session text_only_output (default_widgets\<lparr>start_over_clicked := True\<rparr>) scenario_session
     = scenario_session
   \<and> step (next_session text_only_output (default_widgets\<lparr>start_over_clicked := True\<rparr>)
             scenario_session) = Some 3
   \<and> field (next_session text_only_output (default_widgets\<lparr>start_over_clicked := True\<rparr>)
              scenario_session) ''complexity'' = Some (PyInt 4)
   \<and> page text_only_output (default_widgets\<lparr>start_over_clicked := True\<rparr>) scenario_session
       = step3_view scenario_record"
  by (simp add: scenario_session_eq next_session_def page_def run_script_def init_session_def
        step3_def default_widgets_def field_def scenario_record_def)

end
